theory Spec2Isabelle
  imports Complex_Main
begin

section \<open>Strings and numbers of the host language\<close>

text \<open>
  Strings are lists of characters, one \<^typ>\<open>char\<close> per code unit. Numbers that the
  limiter handles (counts, limits, epoch milliseconds) are integers. \<open>toLowerCase\<close> maps
  the letters \<open>A\<close> to \<open>Z\<close>; every other character is left as it is.
\<close>

definition toLowerCase :: "string \<Rightarrow> string" where
  "toLowerCase s =
     map (\<lambda>c. case map_of (zip ''ABCDEFGHIJKLMNOPQRSTUVWXYZ'' ''abcdefghijklmnopqrstuvwxyz'') c of
                 Some l \<Rightarrow> l
               | None \<Rightarrow> c) s"

fun startsWith :: "string \<Rightarrow> string \<Rightarrow> bool" where
  "startsWith s [] = True"
| "startsWith [] (p # ps) = False"
| "startsWith (c # cs) (p # ps) = (c = p \<and> startsWith cs ps)"

fun includes_str :: "string \<Rightarrow> string \<Rightarrow> bool" where
  "includes_str [] p = (p = [])"
| "includes_str (c # cs) p = (startsWith (c # cs) p \<or> includes_str cs p)"

definition isWhiteSpace :: "char \<Rightarrow> bool" where
  "isWhiteSpace c = (c \<in> set [CHR '' '', CHR 0x09, CHR 0x0A, CHR 0x0B, CHR 0x0C, CHR 0x0D, CHR 0xA0])"

definition trim :: "string \<Rightarrow> string" where
  "trim s = rev (dropWhile isWhiteSpace (rev (dropWhile isWhiteSpace s)))"

text \<open>\<open>s.split(',')[0]\<close>: the text before the first comma.\<close>

definition split_first :: "char \<Rightarrow> string \<Rightarrow> string" where
  "split_first sep s = takeWhile (\<lambda>c. c \<noteq> sep) s"

text \<open>\<open>s.substring(0, n)\<close>.\<close>

definition substring0 :: "nat \<Rightarrow> string \<Rightarrow> string" where
  "substring0 n s = take n s"

definition digit_char :: "nat \<Rightarrow> char" where
  "digit_char d = ''0123456789'' ! d"

fun nat_digits :: "nat \<Rightarrow> string" where
  "nat_digits n = (if n < 10 then [digit_char n] else nat_digits (n div 10) @ [digit_char (n mod 10)])"

declare nat_digits.simps [simp del]

text \<open>\<open>String(n)\<close> for an integer \<open>n\<close>.\<close>

definition String_of :: "int \<Rightarrow> string" where
  "String_of n = (if n < 0 then CHR ''-'' # nat_digits (nat (- n)) else nat_digits (nat n))"

text \<open>\<open>Math.ceil(a / 1000)\<close> and \<open>Math.floor(a / 1000)\<close> on integers.\<close>

definition ceil_div_1000 :: "int \<Rightarrow> int" where
  "ceil_div_1000 a = - ((- a) div 1000)"

definition floor_div_1000 :: "int \<Rightarrow> int" where
  "floor_div_1000 a = a div 1000"


section \<open>Error taxonomy (lib/errors)\<close>

datatype ErrorType =
    DATABASE_ERROR | DATABASE_CONNECTION_ERROR | DATABASE_QUERY_ERROR | DATABASE_CONSTRAINT_ERROR
  | FILE_ERROR | FILE_NOT_FOUND | FILE_UPLOAD_ERROR | FILE_DOWNLOAD_ERROR | FILE_SIZE_EXCEEDED
  | CONVERSION_ERROR | JSON_PARSE_ERROR | TYPE_CONVERSION_ERROR
  | VALIDATION_ERROR | INVALID_INPUT | MISSING_REQUIRED_FIELD
  | AUTHENTICATION_ERROR | AUTHORIZATION_ERROR | TOKEN_EXPIRED | INVALID_CREDENTIALS
  | RESOURCE_NOT_FOUND | RESOURCE_ALREADY_EXISTS
  | BUSINESS_LOGIC_ERROR
  | EXTERNAL_SERVICE_ERROR | API_ERROR | NETWORK_ERROR
  | RATE_LIMIT_ERROR
  | INTERNAL_SERVER_ERROR | UNKNOWN_ERROR

fun ERROR_STATUS_MAP :: "ErrorType \<Rightarrow> int" where
  "ERROR_STATUS_MAP DATABASE_ERROR = 500"
| "ERROR_STATUS_MAP DATABASE_CONNECTION_ERROR = 503"
| "ERROR_STATUS_MAP DATABASE_QUERY_ERROR = 500"
| "ERROR_STATUS_MAP DATABASE_CONSTRAINT_ERROR = 409"
| "ERROR_STATUS_MAP FILE_ERROR = 500"
| "ERROR_STATUS_MAP FILE_NOT_FOUND = 404"
| "ERROR_STATUS_MAP FILE_UPLOAD_ERROR = 500"
| "ERROR_STATUS_MAP FILE_DOWNLOAD_ERROR = 500"
| "ERROR_STATUS_MAP FILE_SIZE_EXCEEDED = 413"
| "ERROR_STATUS_MAP CONVERSION_ERROR = 400"
| "ERROR_STATUS_MAP JSON_PARSE_ERROR = 400"
| "ERROR_STATUS_MAP TYPE_CONVERSION_ERROR = 400"
| "ERROR_STATUS_MAP VALIDATION_ERROR = 400"
| "ERROR_STATUS_MAP INVALID_INPUT = 400"
| "ERROR_STATUS_MAP MISSING_REQUIRED_FIELD = 400"
| "ERROR_STATUS_MAP AUTHENTICATION_ERROR = 401"
| "ERROR_STATUS_MAP AUTHORIZATION_ERROR = 403"
| "ERROR_STATUS_MAP TOKEN_EXPIRED = 401"
| "ERROR_STATUS_MAP INVALID_CREDENTIALS = 401"
| "ERROR_STATUS_MAP RESOURCE_NOT_FOUND = 404"
| "ERROR_STATUS_MAP RESOURCE_ALREADY_EXISTS = 409"
| "ERROR_STATUS_MAP BUSINESS_LOGIC_ERROR = 400"
| "ERROR_STATUS_MAP EXTERNAL_SERVICE_ERROR = 502"
| "ERROR_STATUS_MAP API_ERROR = 502"
| "ERROR_STATUS_MAP NETWORK_ERROR = 503"
| "ERROR_STATUS_MAP RATE_LIMIT_ERROR = 429"
| "ERROR_STATUS_MAP INTERNAL_SERVER_ERROR = 500"
| "ERROR_STATUS_MAP UNKNOWN_ERROR = 500"

text \<open>A native \<open>Error\<close> instance that is not an \<open>AppError\<close>.\<close>

record native_error =
  ne_name :: string
  ne_message :: string
  ne_stack :: string

text \<open>
  Values of type \<open>unknown\<close> that the code passes around as error details or throws:
  primitives, a native error object, and the details object of a rate-limit rejection.
\<close>

datatype js_value =
    JUndefined
  | JNull
  | JBool bool
  | JNum int
  | JStr string
  | JError native_error
  | JRateLimitDetails (d_limit: int) (d_resetAt: int) (d_retryAfter: int)

fun truthy :: "js_value \<Rightarrow> bool" where
  "truthy JUndefined = False"
| "truthy JNull = False"
| "truthy (JBool b) = b"
| "truthy (JNum n) = (n \<noteq> 0)"
| "truthy (JStr s) = (s \<noteq> [])"
| "truthy (JError e) = True"
| "truthy (JRateLimitDetails l r a) = True"

record app_error =
  ae_name :: string
  ae_message :: string
  ae_type :: ErrorType
  ae_statusCode :: int
  ae_isOperational :: bool
  ae_details :: js_value
  ae_stack :: string

text \<open>
  The constructor of \<open>AppError\<close>. \<open>cls\<close> is \<open>this.constructor.name\<close>, \<open>trace\<close> the text
  that \<open>Error.captureStackTrace\<close> records at the construction site, \<open>statusCode\<close> the
  optional argument (\<open>statusCode || ERROR_STATUS_MAP[type]\<close>).
\<close>

definition AppError :: "string \<Rightarrow> string \<Rightarrow> string \<Rightarrow> ErrorType \<Rightarrow> int option \<Rightarrow> bool \<Rightarrow> js_value \<Rightarrow> app_error" where
  "AppError cls trace msg ty statusCode isOperational details =
     \<lparr> ae_name = cls,
       ae_message = msg,
       ae_type = ty,
       ae_statusCode = (case statusCode of
                          Some n \<Rightarrow> if n \<noteq> 0 then n else ERROR_STATUS_MAP ty
                        | None \<Rightarrow> ERROR_STATUS_MAP ty),
       ae_isOperational = isOperational,
       ae_details = details,
       ae_stack = trace \<rparr>"

definition DatabaseError :: "string \<Rightarrow> string \<Rightarrow> js_value \<Rightarrow> app_error" where
  "DatabaseError trace msg details =
     AppError ''DatabaseError'' trace msg DATABASE_ERROR (Some 500) True details"

definition DatabaseConnectionError :: "string \<Rightarrow> string \<Rightarrow> js_value \<Rightarrow> app_error" where
  "DatabaseConnectionError trace msg details =
     AppError ''DatabaseConnectionError'' trace msg DATABASE_CONNECTION_ERROR (Some 503) True details"

definition NetworkError :: "string \<Rightarrow> string \<Rightarrow> js_value \<Rightarrow> app_error" where
  "NetworkError trace msg details =
     AppError ''NetworkError'' trace msg NETWORK_ERROR (Some 503) True details"

definition ConversionError :: "string \<Rightarrow> string \<Rightarrow> string \<Rightarrow> ErrorType \<Rightarrow> js_value \<Rightarrow> app_error" where
  "ConversionError cls trace msg ty details =
     AppError cls trace msg ty (Some (ERROR_STATUS_MAP ty)) True details"

definition JSONParseError :: "string \<Rightarrow> string \<Rightarrow> js_value \<Rightarrow> app_error" where
  "JSONParseError trace msg details =
     ConversionError ''JSONParseError'' trace msg JSON_PARSE_ERROR details"

definition FileError :: "string \<Rightarrow> string \<Rightarrow> ErrorType \<Rightarrow> js_value \<Rightarrow> app_error" where
  "FileError trace msg ty details =
     AppError ''FileError'' trace msg ty (Some (ERROR_STATUS_MAP ty)) True details"

definition InternalServerError :: "string \<Rightarrow> string \<Rightarrow> js_value \<Rightarrow> app_error" where
  "InternalServerError trace msg details =
     AppError ''InternalServerError'' trace msg INTERNAL_SERVER_ERROR (Some 500) True details"

text \<open>
  Whatever a handler can throw: an \<open>AppError\<close>, or any other value (a native error is the
  value \<open>JError e\<close>).
\<close>

datatype thrown =
    Thrown_AppError app_error
  | Thrown_value js_value

abbreviation Thrown_Error :: "native_error \<Rightarrow> thrown" where
  "Thrown_Error e \<equiv> Thrown_value (JError e)"

definition createAppErrorFromNative :: "string \<Rightarrow> thrown \<Rightarrow> app_error" where
  "createAppErrorFromNative trace error =
     (case error of
        Thrown_AppError a \<Rightarrow> a
      | Thrown_value v \<Rightarrow>
          (case v of
             JError e \<Rightarrow>
               (let message = toLowerCase (ne_message e) in
                if includes_str message ''database'' \<or> includes_str message ''sql'' then
                  DatabaseError trace (ne_message e) (JError e)
                else if includes_str message ''network'' \<or> includes_str message ''fetch'' then
                  NetworkError trace (ne_message e) (JError e)
                else if includes_str message ''json'' \<or> includes_str message ''parse'' then
                  JSONParseError trace (ne_message e) (JError e)
                else if includes_str message ''file'' \<or> includes_str message ''upload'' then
                  FileError trace (ne_message e) FILE_ERROR (JError e)
                else InternalServerError trace (ne_message e) (JError e))
           | _ \<Rightarrow> InternalServerError trace ''An unexpected error occurred'' v))"


section \<open>API responses (lib/api/response)\<close>

record process_env =
  NODE_ENV :: "string option"
  RATE_LIMIT_ENABLED :: "string option"
  RATE_LIMIT_MAX_REQUESTS :: "int option"
  RATE_LIMIT_WINDOW_SECONDS :: "int option"

text \<open>
  The two numeric variables hold the integer that \<open>parseInt(v, 10)\<close> reads from the
  variable; \<open>None\<close> stands for a variable that is unset or empty.
\<close>

record error_obj =
  e_type :: ErrorType
  e_message :: string
  e_details :: "js_value option"
  e_stack :: "string option"

record ApiErrorResponse =
  r_success :: bool
  r_error :: error_obj

datatype 'a json_body = Handler_body 'a | Error_body ApiErrorResponse

record 'a NextResponse =
  res_status :: int
  res_headers :: "string \<rightharpoonup> string"
  res_body :: "'a json_body"

text \<open>Header names are case-insensitive: the table is keyed by the lower-case name.\<close>

definition headers_get :: "(string \<rightharpoonup> string) \<Rightarrow> string \<Rightarrow> string option" where
  "headers_get h name = h (toLowerCase name)"

definition headers_set :: "string \<Rightarrow> string \<Rightarrow> 'a NextResponse \<Rightarrow> 'a NextResponse" where
  "headers_set name v response =
     response\<lparr> res_headers := (res_headers response)(toLowerCase name \<mapsto> v) \<rparr>"

definition NextResponse_json :: "'a json_body \<Rightarrow> int \<Rightarrow> 'a NextResponse" where
  "NextResponse_json b st =
     \<lparr> res_status = st,
       res_headers = [''content-type'' \<mapsto> ''application/json''],
       res_body = b \<rparr>"

definition createErrorResponse :: "process_env \<Rightarrow> string \<Rightarrow> thrown \<Rightarrow> ApiErrorResponse" where
  "createErrorResponse env trace error =
     (let appError = (case error of
                        Thrown_AppError a \<Rightarrow> a
                      | _ \<Rightarrow> createAppErrorFromNative trace error);
          response = \<lparr> r_success = False,
                       r_error = \<lparr> e_type = ae_type appError,
                                   e_message = ae_message appError,
                                   e_details = None,
                                   e_stack = None \<rparr> \<rparr>
      in if NODE_ENV env \<noteq> Some ''production'' then
           (let response1 = (if truthy (ae_details appError)
                             then response\<lparr> r_error := (r_error response)\<lparr> e_details := Some (ae_details appError) \<rparr> \<rparr>
                             else response)
            in if ae_stack appError \<noteq> []
               then response1\<lparr> r_error := (r_error response1)\<lparr> e_stack := Some (ae_stack appError) \<rparr> \<rparr>
               else response1)
         else response)"

text \<open>
  \<open>errorResponse(error, statusCode?)\<close>; the log line it writes goes to the console and is
  not part of the state.
\<close>

definition errorResponse :: "process_env \<Rightarrow> string \<Rightarrow> thrown \<Rightarrow> int option \<Rightarrow> 'a NextResponse" where
  "errorResponse env trace error statusCode =
     (let appError = (case error of
                        Thrown_AppError a \<Rightarrow> a
                      | _ \<Rightarrow> createAppErrorFromNative trace error);
          response = createErrorResponse env trace (Thrown_AppError appError);
          st = (case statusCode of
                  Some n \<Rightarrow> if n \<noteq> 0 then n else ae_statusCode appError
                | None \<Rightarrow> ae_statusCode appError)
      in NextResponse_json (Error_body response) st)"


section \<open>The counter store (lib/cache/client)\<close>

text \<open>
  The text stored under a key, represented by what \<open>JSON.parse\<close> makes of it:
  \<open>Malformed\<close> is a text that does not parse to an object, \<open>Counter c f\<close> a text that
  parses to an object whose \<open>count\<close> is \<open>c\<close> and whose \<open>firstRequestTime\<close> is \<open>f\<close>, with
  \<open>0\<close> also standing for a missing field (both are falsy). \<open>JSON.stringify\<close> of the
  limiter's record \<open>{count, firstRequestTime}\<close> is \<open>Counter count firstRequestTime\<close>.
  Both fields are integers, as in every record that the limiter writes from an integer
  count; a text whose \<open>count\<close> is another number, or no number at all, is a \<open>raw_text\<close>
  of the section on records that the limiter did not write.
\<close>

datatype kv_text = Malformed | Counter (count: int) (firstRequestTime: int)

datatype analytics_event =
    RateLimitExceeded string string int int
  | HttpRequest string string int int
  | ErrorEvent string string

text \<open>
  Modelled from the spec: the platform's key-value namespace and the analytics sink are not
  part of the repository. The namespace offers \<open>get(key) -> value | absent\<close> and
  \<open>put(key, value, {ttlSeconds})\<close>, each of which may fail; on expiry of its time to live a
  record is absent. The analytics sink accepts named events and never affects the request.
  An entry is kept with the epoch milliseconds at which it expires. \<open>kv_get_fails\<close> and
  \<open>kv_put_fails\<close> say whether the namespace rejects the operation.
\<close>

record world =
  db_bound :: bool
  kv_bound :: bool
  kv_get_fails :: bool
  kv_put_fails :: bool
  kv_entries :: "string \<rightharpoonup> (kv_text \<times> int)"
  analytics_events :: "analytics_event list"

datatype kv_fault = KV_fault

definition kv_get :: "int \<Rightarrow> string \<Rightarrow> world \<Rightarrow> kv_fault + kv_text option" where
  "kv_get now key w =
     (if kv_get_fails w then Inl KV_fault
      else case kv_entries w key of
             None \<Rightarrow> Inr None
           | Some (v, expires) \<Rightarrow> if expires \<le> now then Inr None else Inr (Some v))"

definition kv_put :: "int \<Rightarrow> string \<Rightarrow> kv_text \<Rightarrow> int \<Rightarrow> world \<Rightarrow> kv_fault + world" where
  "kv_put now key v expirationTtl w =
     (if kv_put_fails w then Inl KV_fault
      else Inr (w\<lparr> kv_entries := (kv_entries w)(key \<mapsto> (v, now + expirationTtl * 1000)) \<rparr>))"

definition track :: "analytics_event \<Rightarrow> world \<Rightarrow> world" where
  "track ev w = w\<lparr> analytics_events := analytics_events w @ [ev] \<rparr>"

text \<open>\<open>getCloudflareEnv\<close> answers null unless the \<open>DB\<close> binding is defined.\<close>

definition getCloudflareEnv :: "world \<Rightarrow> bool" where
  "getCloudflareEnv w = db_bound w"

definition getKVNamespace :: "world \<Rightarrow> bool" where
  "getKVNamespace w = (getCloudflareEnv w \<and> kv_bound w)"

text \<open>\<open>createCacheClient\<close>: whether a client is returned rather than null.\<close>

definition createCacheClient :: "world \<Rightarrow> bool" where
  "createCacheClient w = getKVNamespace w"

text \<open>\<open>CacheClient.get\<close> catches the fault and answers null.\<close>

definition CacheClient_get :: "int \<Rightarrow> string \<Rightarrow> world \<Rightarrow> kv_text option" where
  "CacheClient_get now key w =
     (case kv_get now key w of
        Inl fault \<Rightarrow> None
      | Inr v \<Rightarrow> v)"

text \<open>\<open>CacheClient.set\<close> catches the fault and returns normally.\<close>

definition CacheClient_set :: "int \<Rightarrow> string \<Rightarrow> kv_text \<Rightarrow> int \<Rightarrow> world \<Rightarrow> world" where
  "CacheClient_set now key v expirationTtl w =
     (case kv_put now key v expirationTtl w of
        Inl fault \<Rightarrow> w
      | Inr w' \<Rightarrow> w')"

definition CacheClient_put :: "int \<Rightarrow> string \<Rightarrow> kv_text \<Rightarrow> int \<Rightarrow> world \<Rightarrow> world" where
  "CacheClient_put now key v expirationTtl w = CacheClient_set now key v expirationTtl w"


section \<open>The rate limiter (lib/api/rate-limit)\<close>

record RateLimitConfig =
  maxRequests :: int
  windowSeconds :: int
  keyPrefix :: "string option"
  skipPaths :: "string list option"

record RateLimitStatus =
  allowed :: bool
  remaining :: int
  resetAt :: int
  limit :: int

text \<open>\<open>Partial<RateLimitConfig>\<close>: \<open>None\<close> is a field that the caller did not give.\<close>

record custom_config =
  c_maxRequests :: "int option"
  c_windowSeconds :: "int option"
  c_keyPrefix :: "string option"
  c_skipPaths :: "string list option"

record NextRequest =
  req_method :: string
  req_pathname :: string
  req_headers :: "string \<rightharpoonup> string"

definition DEFAULT_CONFIG :: RateLimitConfig where
  "DEFAULT_CONFIG =
     \<lparr> maxRequests = 300,
       windowSeconds = 60,
       keyPrefix = Some ''rate-limit'',
       skipPaths = Some [''/api/health''] \<rparr>"

definition getRateLimitConfig :: "process_env \<Rightarrow> RateLimitConfig" where
  "getRateLimitConfig env =
     \<lparr> maxRequests = (case RATE_LIMIT_MAX_REQUESTS env of
                        Some n \<Rightarrow> n
                      | None \<Rightarrow> maxRequests DEFAULT_CONFIG),
       windowSeconds = (case RATE_LIMIT_WINDOW_SECONDS env of
                          Some n \<Rightarrow> n
                        | None \<Rightarrow> windowSeconds DEFAULT_CONFIG),
       keyPrefix = keyPrefix DEFAULT_CONFIG,
       skipPaths = skipPaths DEFAULT_CONFIG \<rparr>"

text \<open>\<open>{ ...getRateLimitConfig(), ...customConfig }\<close>.\<close>

definition merge_config :: "RateLimitConfig \<Rightarrow> custom_config \<Rightarrow> RateLimitConfig" where
  "merge_config base custom =
     \<lparr> maxRequests = (case c_maxRequests custom of Some n \<Rightarrow> n | None \<Rightarrow> maxRequests base),
       windowSeconds = (case c_windowSeconds custom of Some n \<Rightarrow> n | None \<Rightarrow> windowSeconds base),
       keyPrefix = (case c_keyPrefix custom of Some p \<Rightarrow> Some p | None \<Rightarrow> keyPrefix base),
       skipPaths = (case c_skipPaths custom of Some ps \<Rightarrow> Some ps | None \<Rightarrow> skipPaths base) \<rparr>"

definition isRateLimitEnabled :: "process_env \<Rightarrow> bool" where
  "isRateLimitEnabled env = (RATE_LIMIT_ENABLED env \<noteq> Some ''false'')"

text \<open>A header that is present with a non-empty value: what \<open>if (h)\<close> lets through.\<close>

definition truthy_header :: "NextRequest \<Rightarrow> string \<Rightarrow> string option" where
  "truthy_header request name =
     (case headers_get (req_headers request) name of
        Some v \<Rightarrow> if v = [] then None else Some v
      | None \<Rightarrow> None)"

definition getClientIdentifier :: "NextRequest \<Rightarrow> string" where
  "getClientIdentifier request =
     (case truthy_header request ''CF-Connecting-IP'' of
        Some cfIp \<Rightarrow> cfIp
      | None \<Rightarrow>
         (case truthy_header request ''X-Forwarded-For'' of
            Some forwarded \<Rightarrow> trim (split_first CHR '','' forwarded)
          | None \<Rightarrow>
             (case truthy_header request ''X-Real-IP'' of
                Some realIp \<Rightarrow> realIp
              | None \<Rightarrow>
                 (let ua = (case truthy_header request ''User-Agent'' of
                              Some u \<Rightarrow> u
                            | None \<Rightarrow> ''unknown'')
                  in ''ua-'' @ substring0 50 ua))))"

text \<open>The template \<open>`${config.keyPrefix}:${clientId}`\<close>.\<close>

definition rate_limit_key :: "RateLimitConfig \<Rightarrow> string \<Rightarrow> string" where
  "rate_limit_key config clientId =
     (case keyPrefix config of Some p \<Rightarrow> p | None \<Rightarrow> ''undefined'') @ '':'' @ clientId"

text \<open>
  \<open>checkRateLimit\<close>, with \<open>now\<close> the value that \<open>Date.now()\<close> returns in the call. Neither
  \<open>cache.get\<close> nor \<open>cache.put\<close> raises (the client catches every fault of the namespace),
  and a text that does not parse is handled by the inner \<open>catch\<close>; so no path of the
  \<open>try\<close> block reaches the outer \<open>catch\<close>, which has no branch here.
\<close>

definition checkRateLimit :: "int \<Rightarrow> string \<Rightarrow> RateLimitConfig \<Rightarrow> world \<Rightarrow> RateLimitStatus \<times> world" where
  "checkRateLimit now clientId config w =
     (if \<not> createCacheClient w then
        (\<lparr> allowed = True,
           remaining = maxRequests config,
           resetAt = now + windowSeconds config * 1000,
           limit = maxRequests config \<rparr>, w)
      else
        (let key = rate_limit_key config clientId;
             windowMs = windowSeconds config * 1000;
             currentData = CacheClient_get now key w;
             parsed = (case currentData of
                         None \<Rightarrow> (0, now)
                       | Some Malformed \<Rightarrow> (0, now)
                       | Some (Counter c f) \<Rightarrow> (c, if f = 0 then now else f));
             expired = (now - snd parsed > windowMs);
             count = (if expired then 0 else fst parsed);
             firstRequestTime = (if expired then now else snd parsed)
         in if count \<ge> maxRequests config then
              (\<lparr> allowed = False,
                 remaining = 0,
                 resetAt = firstRequestTime + windowMs,
                 limit = maxRequests config \<rparr>, w)
            else
              (\<lparr> allowed = True,
                 remaining = maxRequests config - (count + 1),
                 resetAt = firstRequestTime + windowMs,
                 limit = maxRequests config \<rparr>,
               CacheClient_put now key (Counter (count + 1) firstRequestTime) (windowSeconds config) w)))"

definition addRateLimitHeaders :: "'a NextResponse \<Rightarrow> RateLimitStatus \<Rightarrow> 'a NextResponse" where
  "addRateLimitHeaders response st =
     headers_set ''X-RateLimit-Reset'' (String_of (floor_div_1000 (resetAt st)))
       (headers_set ''X-RateLimit-Remaining'' (String_of (remaining st))
         (headers_set ''X-RateLimit-Limit'' (String_of (limit st)) response))"

text \<open>
  A handler runs in the world and either throws or returns a response.
\<close>

type_synonym 'a handler = "world \<Rightarrow> (thrown + 'a NextResponse) \<times> world"

definition rate_limit_body :: "RateLimitStatus \<Rightarrow> int \<Rightarrow> ApiErrorResponse" where
  "rate_limit_body st retryAfter =
     \<lparr> r_success = False,
       r_error = \<lparr> e_type = RATE_LIMIT_ERROR,
                   e_message = ''Too many requests, please try again later'',
                   e_details = Some (JRateLimitDetails (limit st) (resetAt st) retryAfter),
                   e_stack = None \<rparr> \<rparr>"

text \<open>
  \<open>withRateLimit\<close>: \<open>now\<close> is the clock read inside \<open>checkRateLimit\<close>, \<open>now2\<close> the later
  read that computes \<open>retryAfter\<close>.
\<close>

definition withRateLimit ::
  "process_env \<Rightarrow> int \<Rightarrow> int \<Rightarrow> NextRequest \<Rightarrow> 'a handler \<Rightarrow> custom_config \<Rightarrow> world
     \<Rightarrow> (thrown + 'a NextResponse) \<times> world" where
  "withRateLimit env now now2 request handler customConfig w =
     (if \<not> isRateLimitEnabled env then handler w
      else
        (let config = merge_config (getRateLimitConfig env) customConfig;
             pathname = req_pathname request
         in if (case skipPaths config of
                  Some ps \<Rightarrow> list_ex (\<lambda>path. startsWith pathname path) ps
                | None \<Rightarrow> False)
            then handler w
            else
              (let clientId = getClientIdentifier request;
                   (st, w1) = checkRateLimit now clientId config w
               in if \<not> allowed st then
                    (let retryAfter = ceil_div_1000 (resetAt st - now2);
                         response = NextResponse_json (Error_body (rate_limit_body st retryAfter)) 429;
                         response1 = headers_set ''Retry-After'' (String_of retryAfter) response;
                         w2 = track (RateLimitExceeded clientId pathname retryAfter (limit st)) w1
                     in (Inr (addRateLimitHeaders response1 st), w2))
                  else
                    (case handler w1 of
                       (Inl e, w2) \<Rightarrow> (Inl e, w2)
                     | (Inr response, w2) \<Rightarrow> (Inr (addRateLimitHeaders response st), w2)))))"

definition getRateLimitStatus ::
  "process_env \<Rightarrow> int \<Rightarrow> NextRequest \<Rightarrow> custom_config \<Rightarrow> world \<Rightarrow> RateLimitStatus \<times> world" where
  "getRateLimitStatus env now request customConfig w =
     (let config = merge_config (getRateLimitConfig env) customConfig;
          clientId = getClientIdentifier request;
          windowMs = windowSeconds config * 1000;
          fresh = \<lparr> allowed = True,
                    remaining = maxRequests config,
                    resetAt = now + windowMs,
                    limit = maxRequests config \<rparr>
      in if \<not> createCacheClient w then (fresh, w)
         else
           (case CacheClient_get now (rate_limit_key config clientId) w of
              None \<Rightarrow> (fresh, w)
            | Some Malformed \<Rightarrow> (fresh, w)
            | Some (Counter c f) \<Rightarrow>
                (let firstRequestTime = (if f = 0 then now else f)
                 in if now - firstRequestTime > windowMs then (fresh, w)
                    else (\<lparr> allowed = (c < maxRequests config),
                            remaining = max 0 (maxRequests config - c),
                            resetAt = firstRequestTime + windowMs,
                            limit = maxRequests config \<rparr>, w))))"


section \<open>The middleware pipeline (lib/api/middleware)\<close>









section \<open>Records that the limiter did not write\<close>

text \<open>
  A stored text may parse to an object whose \<open>count\<close> is not an integer. Its reading as a
  number, which is what \<open>>=\<close>, \<open><\<close>, \<open>++\<close> and \<open>-\<close> work on, is a rational (rounding of
  doubles is not modelled) or \<open>NaN\<close> for a value that is not numeric, such as the string
  \<open>"abc"\<close>. A comparison with \<open>NaN\<close> is false and arithmetic on \<open>NaN\<close> gives \<open>NaN\<close>, also
  for \<open>Math.max\<close>.
\<close>

datatype js_number = Num rat | NaN

fun number_ge :: "js_number \<Rightarrow> js_number \<Rightarrow> bool" where
  "number_ge (Num a) (Num b) = (a \<ge> b)"
| "number_ge a b = False"

fun number_lt :: "js_number \<Rightarrow> js_number \<Rightarrow> bool" where
  "number_lt (Num a) (Num b) = (a < b)"
| "number_lt a b = False"

fun number_sub :: "js_number \<Rightarrow> js_number \<Rightarrow> js_number" where
  "number_sub (Num a) (Num b) = Num (a - b)"
| "number_sub a b = NaN"

fun number_inc :: "js_number \<Rightarrow> js_number" where
  "number_inc (Num a) = Num (a + 1)"
| "number_inc NaN = NaN"

fun Math_max :: "js_number \<Rightarrow> js_number \<Rightarrow> js_number" where
  "Math_max (Num a) (Num b) = Num (max a b)"
| "Math_max a b = NaN"

text \<open>
  What is read back from the text that \<open>JSON.stringify\<close> writes for a count:
  \<open>NaN\<close> is written as \<open>null\<close>, which is falsy and read as 0.
\<close>

fun stringified :: "js_number \<Rightarrow> js_number" where
  "stringified (Num a) = Num a"
| "stringified NaN = Num 0"

text \<open>
  The stored text with any reading of \<open>count\<close>; \<open>firstRequestTime\<close> is an integer as
  before (0 also standing for a missing field).
\<close>

datatype raw_text = Raw_malformed | Raw_counter (raw_count: js_number) (raw_firstRequestTime: int)

record raw_status =
  rs_allowed :: bool
  rs_remaining :: js_number
  rs_resetAt :: int
  rs_limit :: int

text \<open>
  \<open>checkRateLimit\<close> from the point where \<open>cache.get(key)\<close> has answered \<open>currentData\<close>
  (a client exists): the status that is returned, and the text that is put, if any.
\<close>

definition checkRateLimit_read ::
  "int \<Rightarrow> RateLimitConfig \<Rightarrow> raw_text option \<Rightarrow> raw_status \<times> raw_text option" where
  "checkRateLimit_read now config currentData =
     (let windowMs = windowSeconds config * 1000;
          parsed = (case currentData of
                      None \<Rightarrow> (Num 0, now)
                    | Some Raw_malformed \<Rightarrow> (Num 0, now)
                    | Some (Raw_counter c f) \<Rightarrow> (c, if f = 0 then now else f));
          expired = (now - snd parsed > windowMs);
          count = (if expired then Num 0 else fst parsed);
          firstRequestTime = (if expired then now else snd parsed)
      in if number_ge count (Num (of_int (maxRequests config))) then
           (\<lparr> rs_allowed = False,
              rs_remaining = Num 0,
              rs_resetAt = firstRequestTime + windowMs,
              rs_limit = maxRequests config \<rparr>, None)
         else
           (\<lparr> rs_allowed = True,
              rs_remaining = number_sub (Num (of_int (maxRequests config))) (number_inc count),
              rs_resetAt = firstRequestTime + windowMs,
              rs_limit = maxRequests config \<rparr>,
            Some (Raw_counter (stringified (number_inc count)) firstRequestTime)))"

text \<open>\<open>getRateLimitStatus\<close> from the point where \<open>cache.get(key)\<close> has answered.\<close>

definition getRateLimitStatus_read ::
  "int \<Rightarrow> RateLimitConfig \<Rightarrow> raw_text option \<Rightarrow> raw_status" where
  "getRateLimitStatus_read now config currentData =
     (let windowMs = windowSeconds config * 1000;
          fresh = \<lparr> rs_allowed = True,
                    rs_remaining = Num (of_int (maxRequests config)),
                    rs_resetAt = now + windowMs,
                    rs_limit = maxRequests config \<rparr>
      in case currentData of
           None \<Rightarrow> fresh
         | Some Raw_malformed \<Rightarrow> fresh
         | Some (Raw_counter c f) \<Rightarrow>
             (let firstRequestTime = (if f = 0 then now else f)
              in if now - firstRequestTime > windowMs then fresh
                 else \<lparr> rs_allowed = number_lt c (Num (of_int (maxRequests config))),
                        rs_remaining = Math_max (Num 0) (number_sub (Num (of_int (maxRequests config))) c),
                        rs_resetAt = firstRequestTime + windowMs,
                        rs_limit = maxRequests config \<rparr>))"

text \<open>A record with integer fields, and the status computed from one, among the wider ones.\<close>

fun as_raw_text :: "kv_text \<Rightarrow> raw_text" where
  "as_raw_text Malformed = Raw_malformed"
| "as_raw_text (Counter c f) = Raw_counter (Num (of_int c)) f"

definition as_raw_status :: "RateLimitStatus \<Rightarrow> raw_status" where
  "as_raw_status st =
     \<lparr> rs_allowed = allowed st, rs_remaining = Num (of_int (remaining st)),
       rs_resetAt = resetAt st, rs_limit = limit st \<rparr>"


section \<open>Sequences of calls\<close>

text \<open>
  Consecutive calls of \<open>checkRateLimit\<close> for one client and one policy, one call for each
  clock value of the list, each call starting in the world that the previous one left.
\<close>

fun run_checks :: "string \<Rightarrow> RateLimitConfig \<Rightarrow> int list \<Rightarrow> world \<Rightarrow> RateLimitStatus list \<times> world" where
  "run_checks clientId config [] w = ([], w)"
| "run_checks clientId config (t # ts) w =
     (let (st, w1) = checkRateLimit t clientId config w;
          (sts, w2) = run_checks clientId config ts w1
      in (st # sts, w2))"

text \<open>Consecutive status queries, each with its own clock value, request and overrides.\<close>

fun run_status_queries :: "process_env \<Rightarrow> (int \<times> NextRequest \<times> custom_config) list \<Rightarrow> world \<Rightarrow> world" where
  "run_status_queries env [] w = w"
| "run_status_queries env ((t, request, custom) # qs) w =
     run_status_queries env qs (snd (getRateLimitStatus env t request custom w))"




text \<open>The record of the client, if there is one, carries a \<open>firstRequestTime\<close> other than 0.\<close>

definition stamped :: "RateLimitConfig \<Rightarrow> string \<Rightarrow> world \<Rightarrow> bool" where
  "stamped config clientId w =
     (case kv_entries w (rate_limit_key config clientId) of
        None \<Rightarrow> True
      | Some (Malformed, expires) \<Rightarrow> True
      | Some (Counter c f, expires) \<Rightarrow> f \<noteq> 0)"


section \<open>Example inputs\<close>

definition policy_3_60 :: RateLimitConfig where
  "policy_3_60 =
     \<lparr> maxRequests = 3, windowSeconds = 60, keyPrefix = Some ''rate-limit'',
       skipPaths = Some [''/api/health''] \<rparr>"

definition empty_world :: world where
  "empty_world =
     \<lparr> db_bound = True, kv_bound = True, kv_get_fails = False, kv_put_fails = False,
       kv_entries = Map.empty, analytics_events = [] \<rparr>"

definition T0 :: int where
  "T0 = 1700000000000"

text \<open>The world after three admitted calls of the client \<open>1.2.3.4\<close>, one second apart.\<close>

definition exhausted_world :: world where
  "exhausted_world =
     snd (run_checks ''1.2.3.4'' policy_3_60 [T0, T0 + 1000, T0 + 2000] empty_world)"

text \<open>A world whose record of the client has a count beyond the limit.\<close>

definition corrupted_world :: world where
  "corrupted_world =
     empty_world\<lparr> kv_entries := [''rate-limit:1.2.3.4'' \<mapsto> (Counter 7 T0, T0 + 60000)] \<rparr>"

text \<open>The same record in a namespace whose \<open>get\<close> fails.\<close>

definition get_failing_world :: world where
  "get_failing_world = corrupted_world\<lparr> kv_get_fails := True \<rparr>"

text \<open>A namespace whose \<open>put\<close> fails, holding a record below the limit.\<close>

definition put_failing_world :: world where
  "put_failing_world =
     empty_world\<lparr> kv_put_fails := True,
                    kv_entries := [''rate-limit:1.2.3.4'' \<mapsto> (Counter 1 T0, T0 + 60000)] \<rparr>"

text \<open>A request that carries no client address and an empty \<open>User-Agent\<close>.\<close>

definition empty_ua_request :: NextRequest where
  "empty_ua_request =
     \<lparr> req_method = ''GET'', req_pathname = ''/api/users'',
       req_headers = [''user-agent'' \<mapsto> ''''] \<rparr>"

text \<open>Two requests without a client address whose \<open>User-Agent\<close> values differ after 50 characters.\<close>

definition long_ua_request :: "string \<Rightarrow> NextRequest" where
  "long_ua_request suffix =
     \<lparr> req_method = ''GET'', req_pathname = ''/api/users'',
       req_headers = [''user-agent'' \<mapsto> ''Mozilla/5.0 (X11; Linux x86_64) AppleWebKit/537.36 '' @ suffix] \<rparr>"

definition overrides_3_60 :: custom_config where
  "overrides_3_60 = \<lparr> c_maxRequests = Some 3, c_windowSeconds = Some 60, c_keyPrefix = None, c_skipPaths = None \<rparr>"

definition production_env :: process_env where
  "production_env =
     \<lparr> NODE_ENV = Some ''production'', RATE_LIMIT_ENABLED = None,
       RATE_LIMIT_MAX_REQUESTS = None, RATE_LIMIT_WINDOW_SECONDS = None \<rparr>"

definition client_request :: NextRequest where
  "client_request =
     \<lparr> req_method = ''POST'', req_pathname = ''/api/users'',
       req_headers = [''cf-connecting-ip'' \<mapsto> ''1.2.3.4''] \<rparr>"

text \<open>A handler that answers 200 and one that throws a native error.\<close>

definition ok_handler :: "unit handler" where
  "ok_handler = (\<lambda>w. (Inr (NextResponse_json (Handler_body ()) 200), w))"

definition boom :: native_error where
  "boom =
     \<lparr> ne_name = ''Error'', ne_message = ''ECONNREFUSED database'',
       ne_stack = ''Error: ECONNREFUSED database'' \<rparr>"



text \<open>The response of a call, when it returned one.\<close>

definition response_of :: "(thrown + 'a NextResponse) \<times> world \<Rightarrow> 'a NextResponse option" where
  "response_of result = (case fst result of Inr response \<Rightarrow> Some response | Inl e \<Rightarrow> None)"

text \<open>
  Three calls of the client \<open>1.2.3.4\<close> through \<open>withRateLimit\<close> under the policy of 3
  requests per 60 seconds, at \<open>T\<close>, one second later and two seconds later.
\<close>

definition three_calls :: "int \<Rightarrow> world" where
  "three_calls T =
     snd (withRateLimit production_env (T + 2000) (T + 2000) client_request ok_handler overrides_3_60
       (snd (withRateLimit production_env (T + 1000) (T + 1000) client_request ok_handler overrides_3_60
         (snd (withRateLimit production_env T T client_request ok_handler overrides_3_60 empty_world)))))"

section \<open>Properties of the rate limiter\<close>

lemmas limiter_defs =
  checkRateLimit_def Let_def CacheClient_get_def CacheClient_put_def CacheClient_set_def
  kv_get_def kv_put_def createCacheClient_def getKVNamespace_def getCloudflareEnv_def







lemma rejected_shape:
  assumes "\<not> allowed (fst (checkRateLimit now clientId config w))" "0 < maxRequests config"
  shows "\<exists>c f e. kv_entries w (rate_limit_key config clientId) = Some (Counter c f, e)
           \<and> createCacheClient w \<and> \<not> kv_get_fails w \<and> now < e
           \<and> resetAt (fst (checkRateLimit now clientId config w))
               = (if f = 0 then now else f) + windowSeconds config * 1000"
  using assms
  by (auto simp: limiter_defs split: option.splits kv_text.splits if_splits)

lemma rejected_no_write:
  assumes "\<not> allowed (fst (checkRateLimit now clientId config w))"
  shows "snd (checkRateLimit now clientId config w) = w"
  using assms
  by (auto simp: checkRateLimit_def Let_def split: option.splits kv_text.splits if_splits)

lemma run_rejected_no_write:
  assumes "list_all (\<lambda>st. \<not> allowed st) (fst (run_checks clientId config ts w))"
  shows "snd (run_checks clientId config ts w) = w"
  using assms
proof (induction ts)
  case Nil
  then show ?case by simp
next
  case (Cons t ts)
  have rej: "\<not> allowed (fst (checkRateLimit t clientId config w))"
    using Cons.prems by (simp add: split_beta Let_def)
  have same: "snd (checkRateLimit t clientId config w) = w"
    by (rule rejected_no_write[OF rej])
  show ?case using Cons same by (simp add: split_beta Let_def)
qed

lemma run_rejected_resetAt:
  assumes "list_all (\<lambda>st. \<not> allowed st) (fst (run_checks clientId config ts w))"
    and "0 < maxRequests config"
    and "kv_entries w (rate_limit_key config clientId) = Some (Counter c f, e)" "f \<noteq> 0"
  shows "list_all (\<lambda>st. resetAt st = f + windowSeconds config * 1000) (fst (run_checks clientId config ts w))"
  using assms(1)
proof (induction ts)
  case Nil
  then show ?case by simp
next
  case (Cons t ts)
  have rej: "\<not> allowed (fst (checkRateLimit t clientId config w))"
    using Cons.prems by (simp add: split_beta Let_def)
  have same: "snd (checkRateLimit t clientId config w) = w"
    by (rule rejected_no_write[OF rej])
  have r: "resetAt (fst (checkRateLimit t clientId config w)) = f + windowSeconds config * 1000"
    using rejected_shape[OF rej assms(2)] assms(3,4) by auto
  show ?case using Cons same r by (simp add: split_beta Let_def)
qed

lemma stamped_preserved:
  assumes "now \<noteq> 0" "stamped config clientId w"
  shows "stamped config clientId (snd (checkRateLimit now clientId config w))"
  using assms
  by (auto simp: stamped_def limiter_defs split: option.splits kv_text.splits if_splits prod.splits)

lemma admitted_after_window:
  assumes "0 < maxRequests config" "createCacheClient w"
    and "kv_entries w (rate_limit_key config clientId) = Some (Counter c f, e)" "f \<noteq> 0"
    and "f + windowSeconds config * 1000 < t"
  shows "allowed (fst (checkRateLimit t clientId config w))
       \<and> remaining (fst (checkRateLimit t clientId config w)) = maxRequests config - 1"
  using assms
  by (auto simp: checkRateLimit_def Let_def CacheClient_get_def kv_get_def split: option.splits kv_text.splits if_splits)

lemmas example_defs =
  policy_3_60_def empty_world_def exhausted_world_def corrupted_world_def get_failing_world_def
  put_failing_world_def T0_def rate_limit_key_def

lemma exhausted_world_eq:
  "exhausted_world = empty_world\<lparr> kv_entries := [''rate-limit:1.2.3.4'' \<mapsto> (Counter 3 T0, T0 + 62000)] \<rparr>"
  by (simp add: example_defs limiter_defs)

text \<open>
  C3 (as amended). Calls of \<open>checkRateLimit\<close> that are all refused leave the world as it
  was: no record is written. If moreover \<open>maxRequests > 0\<close> and the stored record carries a
  \<open>firstRequestTime\<close> other than 0, every refused call reports the same \<open>resetAt\<close>, and a
  call at any time strictly after that \<open>resetAt\<close> is allowed with
  \<open>remaining = maxRequests - 1\<close>.
\<close>

theorem rejected_calls_are_free:
  assumes rej: "list_all (\<lambda>st. \<not> allowed st) (fst (run_checks clientId config (t0 # ts) w))"
  shows "snd (run_checks clientId config (t0 # ts) w) = w
       \<and> (0 < maxRequests config \<and> stamped config clientId w
            \<and> resetAt (fst (checkRateLimit t0 clientId config w)) < t
          \<longrightarrow> list_all (\<lambda>st. resetAt st = resetAt (fst (checkRateLimit t0 clientId config w)))
                 (fst (run_checks clientId config (t0 # ts) w))
              \<and> allowed (fst (checkRateLimit t clientId config (snd (run_checks clientId config (t0 # ts) w))))
              \<and> remaining (fst (checkRateLimit t clientId config (snd (run_checks clientId config (t0 # ts) w))))
                  = maxRequests config - 1)"
proof (intro conjI impI)
  show same: "snd (run_checks clientId config (t0 # ts) w) = w"
    by (rule run_rejected_no_write[OF rej])
  assume h: "0 < maxRequests config \<and> stamped config clientId w
            \<and> resetAt (fst (checkRateLimit t0 clientId config w)) < t"
  have rej0: "\<not> allowed (fst (checkRateLimit t0 clientId config w))"
    using rej by (simp add: split_beta Let_def)
  from rejected_shape[OF rej0] h obtain c f e where
    rec: "kv_entries w (rate_limit_key config clientId) = Some (Counter c f, e)"
    and cc: "createCacheClient w"
    and r0: "resetAt (fst (checkRateLimit t0 clientId config w))
               = (if f = 0 then t0 else f) + windowSeconds config * 1000"
    by blast
  have f: "f \<noteq> 0" using h rec by (simp add: stamped_def)
  have r0': "resetAt (fst (checkRateLimit t0 clientId config w)) = f + windowSeconds config * 1000"
    using r0 f by simp
  show "list_all (\<lambda>st. resetAt st = resetAt (fst (checkRateLimit t0 clientId config w)))
                 (fst (run_checks clientId config (t0 # ts) w))"
    unfolding r0' using run_rejected_resetAt[OF rej _ rec f] h by blast
  have adm: "allowed (fst (checkRateLimit t clientId config w))
       \<and> remaining (fst (checkRateLimit t clientId config w)) = maxRequests config - 1"
    using admitted_after_window[OF _ cc rec f, of t] h r0' by simp
  show "allowed (fst (checkRateLimit t clientId config (snd (run_checks clientId config (t0 # ts) w))))"
    using adm same by simp
  show "remaining (fst (checkRateLimit t clientId config (snd (run_checks clientId config (t0 # ts) w))))
                  = maxRequests config - 1"
    using adm same by simp
qed

theorem rejected_calls_are_free_witness:
  "list_all (\<lambda>st. \<not> allowed st) (fst (run_checks ''1.2.3.4'' policy_3_60 [T0 + 3000, T0 + 4000] exhausted_world))
   \<and> 0 < maxRequests policy_3_60 \<and> stamped policy_3_60 ''1.2.3.4'' exhausted_world
   \<and> resetAt (fst (checkRateLimit (T0 + 3000) ''1.2.3.4'' policy_3_60 exhausted_world)) < T0 + 60001
   \<and> snd (run_checks ''1.2.3.4'' policy_3_60 [T0 + 3000, T0 + 4000] exhausted_world) = exhausted_world
   \<and> map resetAt (fst (run_checks ''1.2.3.4'' policy_3_60 [T0 + 3000, T0 + 4000] exhausted_world))
       = [T0 + 60000, T0 + 60000]
   \<and> allowed (fst (checkRateLimit (T0 + 60001) ''1.2.3.4'' policy_3_60
        (snd (run_checks ''1.2.3.4'' policy_3_60 [T0 + 3000, T0 + 4000] exhausted_world))))
   \<and> remaining (fst (checkRateLimit (T0 + 60001) ''1.2.3.4'' policy_3_60
        (snd (run_checks ''1.2.3.4'' policy_3_60 [T0 + 3000, T0 + 4000] exhausted_world)))) = 2"
  using rejected_calls_are_free[of "''1.2.3.4''" policy_3_60 "T0 + 3000" "[T0 + 4000]" exhausted_world "T0 + 60001"]
  by (simp add: exhausted_world_eq stamped_def example_defs limiter_defs)

text \<open>
  At the instant \<open>resetAt\<close> itself the window has not yet expired for the code
  (\<open>now - firstRequestTime > windowMs\<close> is strict): after three admitted calls and a
  refused one that reports \<open>resetAt = T0 + 60000\<close>, the call at \<open>T0 + 60000\<close> is refused.
\<close>

theorem window_boundary_counterexample:
  "\<not> allowed (fst (checkRateLimit (T0 + 3000) ''1.2.3.4'' policy_3_60 exhausted_world))
   \<and> resetAt (fst (checkRateLimit (T0 + 3000) ''1.2.3.4'' policy_3_60 exhausted_world)) = T0 + 60000
   \<and> \<not> allowed (fst (checkRateLimit (T0 + 60000) ''1.2.3.4'' policy_3_60
          (snd (checkRateLimit (T0 + 3000) ''1.2.3.4'' policy_3_60 exhausted_world))))"
  by (simp add: exhausted_world_eq example_defs limiter_defs)

lemma status_query_no_write:
  "snd (getRateLimitStatus env now request custom w) = w"
  by (auto simp: getRateLimitStatus_def Let_def split: option.splits kv_text.splits)

lemma run_status_queries_no_write: "run_status_queries env qs w = w"
  by (induction qs arbitrary: w) (auto simp: status_query_no_write)

text \<open>
  C4. \<open>getRateLimitStatus\<close> never writes to the counter store: a status query leaves the
  world as it was, so does any number of them, and the next \<open>checkRateLimit\<close> answers (and
  writes) exactly what it would have without the queries.
\<close>

theorem status_query_is_read_only:
  "snd (getRateLimitStatus env now request custom w) = w
   \<and> run_status_queries env qs w = w
   \<and> checkRateLimit t clientId config (run_status_queries env qs w) = checkRateLimit t clientId config w"
  by (simp add: status_query_no_write run_status_queries_no_write)

text \<open>
  C5. The claim is that a failing \<open>get\<close> or \<open>put\<close> makes \<open>checkRateLimit\<close> answer
  \<open>allowed = true\<close> with \<open>remaining = maxRequests\<close>. The calls below run with a client
  and a namespace whose \<open>get\<close> (first world) or \<open>put\<close> (second world) fails, under the
  policy of 3 requests: both are allowed, but \<open>remaining\<close> is 2 and 1, not 3.
\<close>

theorem store_fault_not_reported_as_unavailable:
  "createCacheClient get_failing_world \<and> kv_get_fails get_failing_world
   \<and> maxRequests policy_3_60 = 3
   \<and> allowed (fst (checkRateLimit (T0 + 3000) ''1.2.3.4'' policy_3_60 get_failing_world))
   \<and> remaining (fst (checkRateLimit (T0 + 3000) ''1.2.3.4'' policy_3_60 get_failing_world)) = 2
   \<and> createCacheClient put_failing_world \<and> kv_put_fails put_failing_world
   \<and> allowed (fst (checkRateLimit (T0 + 3000) ''1.2.3.4'' policy_3_60 put_failing_world))
   \<and> remaining (fst (checkRateLimit (T0 + 3000) ''1.2.3.4'' policy_3_60 put_failing_world)) = 1"
  by (simp add: example_defs limiter_defs)

lemma no_client_fail_open:
  "\<not> createCacheClient w \<Longrightarrow>
     checkRateLimit now clientId config w =
       (\<lparr> allowed = True, remaining = maxRequests config,
          resetAt = now + windowSeconds config * 1000, limit = maxRequests config \<rparr>, w)"
  by (simp add: checkRateLimit_def)

text \<open>
  For a policy with \<open>maxRequests > 0\<close> and a store whose records have integer fields (no
  record, a text that does not parse, a record with any integer count), the status that
  \<open>checkRateLimit\<close> returns and the status that \<open>getRateLimitStatus\<close> returns have
  \<open>remaining \<ge> 0\<close> and \<open>limit = maxRequests\<close>, whatever branch produced them.
\<close>

lemma status_fields_in_range:
  assumes "0 < maxRequests config"
    and "0 < maxRequests (merge_config (getRateLimitConfig env) custom)"
  shows "0 \<le> remaining (fst (checkRateLimit now clientId config w))
       \<and> limit (fst (checkRateLimit now clientId config w)) = maxRequests config
       \<and> 0 \<le> remaining (fst (getRateLimitStatus env now request custom w))
       \<and> limit (fst (getRateLimitStatus env now request custom w))
           = maxRequests (merge_config (getRateLimitConfig env) custom)"
proof -
  have a: "0 \<le> remaining (fst (checkRateLimit now clientId config w))
       \<and> limit (fst (checkRateLimit now clientId config w)) = maxRequests config"
    using assms(1) by (auto simp: checkRateLimit_def Let_def split: option.splits kv_text.splits)
  have b: "0 \<le> remaining (fst (getRateLimitStatus env now request custom w))
       \<and> limit (fst (getRateLimitStatus env now request custom w))
           = maxRequests (merge_config (getRateLimitConfig env) custom)"
    using assms(2) by (auto simp: getRateLimitStatus_def Let_def split: option.splits kv_text.splits)
  show ?thesis using a b by simp
qed

lemma status_fields_in_range_example:
  "0 < maxRequests policy_3_60
   \<and> 0 < maxRequests (merge_config (getRateLimitConfig production_env) overrides_3_60)
   \<and> remaining (fst (checkRateLimit (T0 + 3000) ''1.2.3.4'' policy_3_60 corrupted_world)) = 0
   \<and> limit (fst (checkRateLimit (T0 + 3000) ''1.2.3.4'' policy_3_60 corrupted_world)) = 3
   \<and> remaining (fst (getRateLimitStatus production_env (T0 + 3000) client_request overrides_3_60 corrupted_world)) = 0
   \<and> limit (fst (getRateLimitStatus production_env (T0 + 3000) client_request overrides_3_60 corrupted_world)) = 3"
  using status_fields_in_range[of policy_3_60 production_env overrides_3_60 "T0 + 3000" "''1.2.3.4''"
      corrupted_world client_request]
  by (simp add: example_defs limiter_defs getRateLimitStatus_def merge_config_def getRateLimitConfig_def
      DEFAULT_CONFIG_def overrides_3_60_def production_env_def client_request_def
      getClientIdentifier_def truthy_header_def headers_get_def toLowerCase_def)

text \<open>On records with integer fields the two functions are the ones above.\<close>

lemma checkRateLimit_read_agrees:
  assumes "createCacheClient w"
  shows "fst (checkRateLimit_read now config
            (map_option as_raw_text (CacheClient_get now (rate_limit_key config clientId) w)))
         = as_raw_status (fst (checkRateLimit now clientId config w))"
  using assms
  by (auto simp: checkRateLimit_read_def checkRateLimit_def Let_def as_raw_status_def
      split: option.splits kv_text.splits)

lemma getRateLimitStatus_read_agrees:
  assumes "createCacheClient w"
  shows "getRateLimitStatus_read now (merge_config (getRateLimitConfig env) custom)
            (map_option as_raw_text
               (CacheClient_get now
                  (rate_limit_key (merge_config (getRateLimitConfig env) custom) (getClientIdentifier request)) w))
         = as_raw_status (fst (getRateLimitStatus env now request custom w))"
  using assms
  by (auto simp: getRateLimitStatus_read_def getRateLimitStatus_def Let_def as_raw_status_def
      split: option.splits kv_text.splits)

lemma integer_count_in_range:
  assumes "0 < maxRequests config"
  shows "number_ge (rs_remaining (fst (checkRateLimit_read now config (map_option as_raw_text currentData)))) (Num 0)
       \<and> rs_limit (fst (checkRateLimit_read now config (map_option as_raw_text currentData))) = maxRequests config
       \<and> number_ge (rs_remaining (getRateLimitStatus_read now config (map_option as_raw_text currentData))) (Num 0)
       \<and> rs_limit (getRateLimitStatus_read now config (map_option as_raw_text currentData)) = maxRequests config"
proof (cases currentData)
  case None
  then show ?thesis
    using assms by (simp add: checkRateLimit_read_def getRateLimitStatus_read_def Let_def)
next
  case (Some t)
  then show ?thesis
    using assms
    by (cases t) (auto simp: checkRateLimit_read_def getRateLimitStatus_read_def Let_def)
qed



section \<open>Properties of error normalization\<close>

text \<open>
  C8. \<open>createAppErrorFromNative\<close> returns an \<open>AppError\<close> unchanged, so status code and type
  are the error's own (and the response for it is sent with that status code); normalizing a normalized error changes nothing; the result for a
  native error is determined by its message, the name and stack of the native error
  reaching only the attached details; and a native error with the message
  \<open>ECONNREFUSED database\<close> becomes a \<open>DATABASE_ERROR\<close> with status 500.
\<close>

theorem normalization_idempotent:
  "createAppErrorFromNative trace (Thrown_AppError a) = a
   \<and> ae_statusCode (createAppErrorFromNative trace (Thrown_AppError a)) = ae_statusCode a
   \<and> ae_type (createAppErrorFromNative trace (Thrown_AppError a)) = ae_type a
   \<and> res_status (errorResponse env trace (Thrown_AppError a) None :: 'b NextResponse) = ae_statusCode a
   \<and> createAppErrorFromNative trace' (Thrown_AppError (createAppErrorFromNative trace x))
       = createAppErrorFromNative trace x
   \<and> createAppErrorFromNative trace (Thrown_Error (e\<lparr> ne_name := n, ne_stack := s \<rparr>))
       = (createAppErrorFromNative trace (Thrown_Error e))
            \<lparr> ae_details := JError (e\<lparr> ne_name := n, ne_stack := s \<rparr>) \<rparr>
   \<and> ae_type (createAppErrorFromNative trace
         (Thrown_Error \<lparr> ne_name = n, ne_message = ''ECONNREFUSED database'', ne_stack = s \<rparr>)) = DATABASE_ERROR
   \<and> ae_statusCode (createAppErrorFromNative trace
         (Thrown_Error \<lparr> ne_name = n, ne_message = ''ECONNREFUSED database'', ne_stack = s \<rparr>)) = 500"
  by (simp add: createAppErrorFromNative_def toLowerCase_def Let_def DatabaseError_def NetworkError_def
      JSONParseError_def ConversionError_def FileError_def InternalServerError_def AppError_def
      errorResponse_def NextResponse_json_def)


section \<open>Properties of the rate-limit wrapper\<close>

lemmas request_defs =
  getClientIdentifier_def truthy_header_def headers_get_def toLowerCase_def substring0_def

lemmas config_defs =
  merge_config_def getRateLimitConfig_def DEFAULT_CONFIG_def isRateLimitEnabled_def
  overrides_3_60_def production_env_def client_request_def

lemma three_calls_eq:
  assumes "0 < T"
  shows "three_calls T =
     empty_world\<lparr> kv_entries := [''rate-limit:1.2.3.4'' \<mapsto> (Counter 3 T, T + 62000)] \<rparr>"
  using assms
  by (simp add: three_calls_def withRateLimit_def config_defs request_defs ok_handler_def
      empty_world_def limiter_defs rate_limit_key_def split_beta add.commute)


lemma ceil_57:
  assumes "T + 3000 \<le> now2" "now2 < T + 4000"
  shows "ceil_div_1000 (T + 60000 - now2) = 57"
  using assms unfolding ceil_div_1000_def by (simp add: algebra_simps)


lemma withRateLimit_rejected:
  assumes en: "isRateLimitEnabled env"
    and noskip: "\<not> (case skipPaths (merge_config (getRateLimitConfig env) custom) of
                     Some ps \<Rightarrow> list_ex (\<lambda>path. startsWith (req_pathname request) path) ps
                   | None \<Rightarrow> False)"
    and chk: "checkRateLimit now (getClientIdentifier request) (merge_config (getRateLimitConfig env) custom) w = (st, w1)"
    and rej: "\<not> allowed st"
  shows "withRateLimit env now now2 request handler custom w =
           (Inr (addRateLimitHeaders
                  (headers_set ''Retry-After'' (String_of (ceil_div_1000 (resetAt st - now2)))
                     (NextResponse_json (Error_body (rate_limit_body st (ceil_div_1000 (resetAt st - now2)))) 429))
                  st),
            track (RateLimitExceeded (getClientIdentifier request) (req_pathname request)
                     (ceil_div_1000 (resetAt st - now2)) (limit st)) w1)"
  using assms by (simp add: withRateLimit_def Let_def)

lemma withRateLimit_admitted:
  assumes en: "isRateLimitEnabled env"
    and noskip: "\<not> (case skipPaths (merge_config (getRateLimitConfig env) custom) of
                     Some ps \<Rightarrow> list_ex (\<lambda>path. startsWith (req_pathname request) path) ps
                   | None \<Rightarrow> False)"
    and chk: "checkRateLimit now (getClientIdentifier request) (merge_config (getRateLimitConfig env) custom) w = (st, w1)"
    and adm: "allowed st"
    and h: "handler w1 = (Inr response, w2)"
  shows "withRateLimit env now now2 request handler custom w = (Inr (addRateLimitHeaders response st), w2)"
  using assms by (simp add: withRateLimit_def Let_def)

lemma rate_limit_headers:
  "res_status (addRateLimitHeaders response st) = res_status response
   \<and> res_body (addRateLimitHeaders response st) = res_body response
   \<and> headers_get (res_headers (addRateLimitHeaders response st)) ''X-RateLimit-Limit'' = Some (String_of (limit st))
   \<and> headers_get (res_headers (addRateLimitHeaders response st)) ''X-RateLimit-Remaining'' = Some (String_of (remaining st))
   \<and> headers_get (res_headers (addRateLimitHeaders response st)) ''X-RateLimit-Reset''
       = Some (String_of (floor_div_1000 (resetAt st)))"
  by (simp add: addRateLimitHeaders_def headers_set_def headers_get_def toLowerCase_def)

lemma retry_after_header:
  "headers_get (res_headers (addRateLimitHeaders (headers_set ''Retry-After'' v response) st)) ''Retry-After'' = Some v"
  by (simp add: addRateLimitHeaders_def headers_set_def headers_get_def toLowerCase_def)

lemma fourth_call:
  assumes "0 < T"
  shows "checkRateLimit (T + 3000) (getClientIdentifier client_request)
           (merge_config (getRateLimitConfig production_env) overrides_3_60) (three_calls T)
         = (\<lparr> allowed = False, remaining = 0, resetAt = T + 60000, limit = 3 \<rparr>, three_calls T)"
  using assms
  by (simp add: three_calls_eq config_defs request_defs empty_world_def limiter_defs rate_limit_key_def add.commute)

lemma String_of_57: "String_of 57 = ''57''"
  by (simp add: String_of_def nat_digits.simps digit_char_def)

text \<open>
  C6. When limiting is enabled and the path is not skipped: if the limiter refuses, the
  answer of \<open>withRateLimit\<close> has status 429, the body
  \<open>{success: false, error: {type: RATE_LIMIT_ERROR, message, details: {limit, resetAt, retryAfter}}}\<close>
  and the header \<open>Retry-After = ceil((resetAt - now) / 1000)\<close>; if the limiter admits and
  the handler returns a response, the answer is that response with \<open>X-RateLimit-Limit\<close>,
  \<open>X-RateLimit-Remaining\<close> and \<open>X-RateLimit-Reset = floor(resetAt / 1000)\<close> set. Under the
  policy of 3 requests per 60 seconds, after calls at \<open>T\<close>, \<open>T + 1 s\<close> and \<open>T + 2 s\<close> the call
  at \<open>T + 3 s\<close> is refused with \<open>Retry-After = 57\<close> (for a clock \<open>T > 0\<close>, the second clock
  read of the call falling in the same second).
\<close>

theorem withRateLimit_responses:
  assumes en: "isRateLimitEnabled env"
    and noskip: "\<not> (case skipPaths (merge_config (getRateLimitConfig env) custom) of
                     Some ps \<Rightarrow> list_ex (\<lambda>path. startsWith (req_pathname request) path) ps
                   | None \<Rightarrow> False)"
    and chk: "checkRateLimit now (getClientIdentifier request) (merge_config (getRateLimitConfig env) custom) w = (st, w1)"
  shows "(\<not> allowed st \<longrightarrow>
            map_option res_status (response_of (withRateLimit env now now2 request handler custom w)) = Some 429
          \<and> map_option res_body (response_of (withRateLimit env now now2 request handler custom w))
              = Some (Error_body
                  \<lparr> r_success = False,
                    r_error = \<lparr> e_type = RATE_LIMIT_ERROR,
                                e_message = ''Too many requests, please try again later'',
                                e_details = Some (JRateLimitDetails (limit st) (resetAt st)
                                                    (ceil_div_1000 (resetAt st - now2))),
                                e_stack = None \<rparr> \<rparr>)
          \<and> map_option (\<lambda>r. headers_get (res_headers r) ''Retry-After'')
                (response_of (withRateLimit env now now2 request handler custom w))
              = Some (Some (String_of (ceil_div_1000 (resetAt st - now2)))))
       \<and> (allowed st \<and> handler w1 = (Inr response, w2) \<longrightarrow>
            map_option res_status (response_of (withRateLimit env now now2 request handler custom w))
              = Some (res_status response)
          \<and> map_option res_body (response_of (withRateLimit env now now2 request handler custom w))
              = Some (res_body response)
          \<and> map_option (\<lambda>r. headers_get (res_headers r) ''X-RateLimit-Limit'')
                (response_of (withRateLimit env now now2 request handler custom w))
              = Some (Some (String_of (limit st)))
          \<and> map_option (\<lambda>r. headers_get (res_headers r) ''X-RateLimit-Remaining'')
                (response_of (withRateLimit env now now2 request handler custom w))
              = Some (Some (String_of (remaining st)))
          \<and> map_option (\<lambda>r. headers_get (res_headers r) ''X-RateLimit-Reset'')
                (response_of (withRateLimit env now now2 request handler custom w))
              = Some (Some (String_of (floor_div_1000 (resetAt st)))))
       \<and> (0 < T \<and> T + 3000 \<le> later \<and> later < T + 4000 \<longrightarrow>
            map_option res_status
              (response_of (withRateLimit production_env (T + 3000) later client_request ok_handler
                 overrides_3_60 (three_calls T))) = Some 429
          \<and> map_option (\<lambda>r. headers_get (res_headers r) ''Retry-After'')
              (response_of (withRateLimit production_env (T + 3000) later client_request ok_handler
                 overrides_3_60 (three_calls T))) = Some (Some ''57''))"
proof (intro conjI impI)
  let ?R = "withRateLimit env now now2 request handler custom w"
  let ?retry = "ceil_div_1000 (resetAt st - now2)"
  {
    assume rej: "\<not> allowed st"
    have r: "response_of ?R = Some (addRateLimitHeaders
                  (headers_set ''Retry-After'' (String_of ?retry)
                     (NextResponse_json (Error_body (rate_limit_body st ?retry)) 429)) st)"
      by (simp add: withRateLimit_rejected[OF en noskip chk rej] response_of_def)
    show "map_option res_status (response_of ?R) = Some 429"
      by (simp add: r rate_limit_headers headers_set_def NextResponse_json_def)
    show "map_option res_body (response_of ?R)
              = Some (Error_body
                  \<lparr> r_success = False,
                    r_error = \<lparr> e_type = RATE_LIMIT_ERROR,
                                e_message = ''Too many requests, please try again later'',
                                e_details = Some (JRateLimitDetails (limit st) (resetAt st) ?retry),
                                e_stack = None \<rparr> \<rparr>)"
      by (simp add: r rate_limit_headers headers_set_def NextResponse_json_def rate_limit_body_def)
    show "map_option (\<lambda>r. headers_get (res_headers r) ''Retry-After'') (response_of ?R)
              = Some (Some (String_of ?retry))"
      by (simp add: r retry_after_header)
  }
  {
    assume adm: "allowed st \<and> handler w1 = (Inr response, w2)"
    have r: "response_of ?R = Some (addRateLimitHeaders response st)"
      using withRateLimit_admitted[OF en noskip chk, of handler response w2 now2] adm
      by (simp add: response_of_def)
    show "map_option res_status (response_of ?R) = Some (res_status response)"
      by (simp add: r rate_limit_headers)
    show "map_option res_body (response_of ?R) = Some (res_body response)"
      by (simp add: r rate_limit_headers)
    show "map_option (\<lambda>r. headers_get (res_headers r) ''X-RateLimit-Limit'') (response_of ?R)
              = Some (Some (String_of (limit st)))"
      by (simp add: r rate_limit_headers)
    show "map_option (\<lambda>r. headers_get (res_headers r) ''X-RateLimit-Remaining'') (response_of ?R)
              = Some (Some (String_of (remaining st)))"
      by (simp add: r rate_limit_headers)
    show "map_option (\<lambda>r. headers_get (res_headers r) ''X-RateLimit-Reset'') (response_of ?R)
              = Some (Some (String_of (floor_div_1000 (resetAt st))))"
      by (simp add: r rate_limit_headers)
  }
  {
    assume clock: "0 < T \<and> T + 3000 \<le> later \<and> later < T + 4000"
    let ?S = "withRateLimit production_env (T + 3000) later client_request ok_handler
                 overrides_3_60 (three_calls T)"
    let ?st = "\<lparr> allowed = False, remaining = 0, resetAt = T + 60000, limit = 3 \<rparr>"
    have en0: "isRateLimitEnabled production_env"
      by (simp add: config_defs)
    have noskip0: "\<not> (case skipPaths (merge_config (getRateLimitConfig production_env) overrides_3_60) of
                     Some ps \<Rightarrow> list_ex (\<lambda>path. startsWith (req_pathname client_request) path) ps
                   | None \<Rightarrow> False)"
      by (simp add: config_defs)
    have chk0: "checkRateLimit (T + 3000) (getClientIdentifier client_request)
           (merge_config (getRateLimitConfig production_env) overrides_3_60) (three_calls T)
         = (?st, three_calls T)"
      using fourth_call clock by simp
    have retry: "ceil_div_1000 (resetAt ?st - later) = 57"
      using ceil_57[of T later] clock by simp
    have r: "response_of ?S = Some (addRateLimitHeaders
                  (headers_set ''Retry-After'' ''57''
                     (NextResponse_json (Error_body (rate_limit_body ?st 57)) 429)) ?st)"
      using withRateLimit_rejected[OF en0 noskip0 chk0, of later ok_handler] retry
      by (simp add: response_of_def String_of_57)
    show "map_option res_status (response_of ?S) = Some 429"
      by (simp add: r rate_limit_headers headers_set_def NextResponse_json_def)
    show "map_option (\<lambda>r. headers_get (res_headers r) ''Retry-After'') (response_of ?S) = Some (Some ''57'')"
      by (simp add: r retry_after_header)
  }
qed

lemma first_call:
  "checkRateLimit T0 (getClientIdentifier client_request)
     (merge_config (getRateLimitConfig production_env) overrides_3_60) empty_world
   = (\<lparr> allowed = True, remaining = 2, resetAt = T0 + 60000, limit = 3 \<rparr>,
      empty_world\<lparr> kv_entries := [''rate-limit:1.2.3.4'' \<mapsto> (Counter 1 T0, T0 + 60000)] \<rparr>)"
  by (simp add: config_defs request_defs empty_world_def limiter_defs rate_limit_key_def T0_def)

theorem withRateLimit_responses_witness:
  "isRateLimitEnabled production_env
   \<and> \<not> (case skipPaths (merge_config (getRateLimitConfig production_env) overrides_3_60) of
                     Some ps \<Rightarrow> list_ex (\<lambda>path. startsWith (req_pathname client_request) path) ps
                   | None \<Rightarrow> False)
   \<and> fst (checkRateLimit T0 (getClientIdentifier client_request)
        (merge_config (getRateLimitConfig production_env) overrides_3_60) empty_world)
      = \<lparr> allowed = True, remaining = 2, resetAt = T0 + 60000, limit = 3 \<rparr>
   \<and> map_option (\<lambda>r. headers_get (res_headers r) ''X-RateLimit-Limit'')
        (response_of (withRateLimit production_env T0 T0 client_request ok_handler overrides_3_60 empty_world))
      = Some (Some ''3'')
   \<and> map_option (\<lambda>r. headers_get (res_headers r) ''X-RateLimit-Remaining'')
        (response_of (withRateLimit production_env T0 T0 client_request ok_handler overrides_3_60 empty_world))
      = Some (Some ''2'')
   \<and> map_option (\<lambda>r. headers_get (res_headers r) ''X-RateLimit-Reset'')
        (response_of (withRateLimit production_env T0 T0 client_request ok_handler overrides_3_60 empty_world))
      = Some (Some ''1700000060'')
   \<and> fst (checkRateLimit (T0 + 3000) (getClientIdentifier client_request)
        (merge_config (getRateLimitConfig production_env) overrides_3_60) (three_calls T0))
      = \<lparr> allowed = False, remaining = 0, resetAt = T0 + 60000, limit = 3 \<rparr>
   \<and> map_option res_status
        (response_of (withRateLimit production_env (T0 + 3000) (T0 + 3001) client_request ok_handler
           overrides_3_60 (three_calls T0))) = Some 429
   \<and> map_option (\<lambda>r. headers_get (res_headers r) ''Retry-After'')
        (response_of (withRateLimit production_env (T0 + 3000) (T0 + 3001) client_request ok_handler
           overrides_3_60 (three_calls T0))) = Some (Some ''57'')"
proof -
  let ?adm = "\<lparr> allowed = True, remaining = 2, resetAt = T0 + 60000, limit = 3 \<rparr>"
  let ?rej = "\<lparr> allowed = False, remaining = 0, resetAt = T0 + 60000, limit = 3 \<rparr>"
  let ?w1 = "empty_world\<lparr> kv_entries := [''rate-limit:1.2.3.4'' \<mapsto> (Counter 1 T0, T0 + 60000)] \<rparr>"
  have t: "0 < T0" by (simp add: T0_def)
  have en0: "isRateLimitEnabled production_env"
    by (simp add: config_defs)
  have noskip0: "\<not> (case skipPaths (merge_config (getRateLimitConfig production_env) overrides_3_60) of
                   Some ps \<Rightarrow> list_ex (\<lambda>path. startsWith (req_pathname client_request) path) ps
                 | None \<Rightarrow> False)"
    by (simp add: config_defs)
  have h: "ok_handler ?w1 = (Inr (NextResponse_json (Handler_body ()) 200), ?w1)"
    by (simp add: ok_handler_def)
  have s3: "String_of (limit ?adm) = ''3''"
    by (simp add: String_of_def nat_digits.simps digit_char_def)
  have s2: "String_of (remaining ?adm) = ''2''"
    by (simp add: String_of_def nat_digits.simps digit_char_def)
  have sr: "String_of (floor_div_1000 (resetAt ?adm)) = ''1700000060''"
    by (simp add: String_of_def nat_digits.simps digit_char_def floor_div_1000_def T0_def)
  note th1 = withRateLimit_responses[OF en0 noskip0 first_call,
      where handler = ok_handler and response = "NextResponse_json (Handler_body ()) 200"
        and ?w2.0 = ?w1 and ?now2.0 = T0 and T = T0 and later = "T0 + 3001"]
  note th2 = withRateLimit_responses[OF en0 noskip0 fourth_call[OF t],
      where handler = ok_handler and ?now2.0 = "T0 + 3001" and T = T0 and later = "T0 + 3001"]
  have a: "map_option (\<lambda>r. headers_get (res_headers r) ''X-RateLimit-Limit'')
        (response_of (withRateLimit production_env T0 T0 client_request ok_handler overrides_3_60 empty_world))
      = Some (Some ''3'')
   \<and> map_option (\<lambda>r. headers_get (res_headers r) ''X-RateLimit-Remaining'')
        (response_of (withRateLimit production_env T0 T0 client_request ok_handler overrides_3_60 empty_world))
      = Some (Some ''2'')
   \<and> map_option (\<lambda>r. headers_get (res_headers r) ''X-RateLimit-Reset'')
        (response_of (withRateLimit production_env T0 T0 client_request ok_handler overrides_3_60 empty_world))
      = Some (Some ''1700000060'')"
    using th1 h unfolding s3 s2 sr by auto
  have b: "map_option res_status
        (response_of (withRateLimit production_env (T0 + 3000) (T0 + 3001) client_request ok_handler
           overrides_3_60 (three_calls T0))) = Some 429
   \<and> map_option (\<lambda>r. headers_get (res_headers r) ''Retry-After'')
        (response_of (withRateLimit production_env (T0 + 3000) (T0 + 3001) client_request ok_handler
           overrides_3_60 (three_calls T0))) = Some (Some ''57'')"
    using th2 t by auto
  show ?thesis
    using en0 noskip0 a b by (simp add: first_call fourth_call[OF t])
qed

text \<open>
  C10 (as amended). When a request carries none of \<open>CF-Connecting-IP\<close>, \<open>X-Forwarded-For\<close>
  and \<open>X-Real-IP\<close>, its client identifier is \<open>ua-\<close> followed by the first 50 characters of
  the \<open>User-Agent\<close> header when that header is present and not empty, and \<open>ua-unknown\<close> when
  it is absent or empty; so two such requests whose \<open>User-Agent\<close> values agree on the first
  50 characters, or which both lack the header, use the same counter key under a policy.
\<close>

theorem user_agent_fallback:
  assumes "headers_get (req_headers request) ''CF-Connecting-IP'' = None"
    and "headers_get (req_headers request) ''X-Forwarded-For'' = None"
    and "headers_get (req_headers request) ''X-Real-IP'' = None"
    and "headers_get (req_headers request') ''CF-Connecting-IP'' = None"
    and "headers_get (req_headers request') ''X-Forwarded-For'' = None"
    and "headers_get (req_headers request') ''X-Real-IP'' = None"
  shows "getClientIdentifier request =
           (case headers_get (req_headers request) ''User-Agent'' of
              None \<Rightarrow> ''ua-unknown''
            | Some ua \<Rightarrow> if ua = [] then ''ua-unknown'' else ''ua-'' @ take 50 ua)
       \<and> (headers_get (req_headers request) ''User-Agent'' = Some ua
            \<and> headers_get (req_headers request') ''User-Agent'' = Some ua'
            \<and> ua \<noteq> [] \<and> ua' \<noteq> [] \<and> take 50 ua = take 50 ua'
          \<longrightarrow> rate_limit_key config (getClientIdentifier request)
                = rate_limit_key config (getClientIdentifier request'))
       \<and> (headers_get (req_headers request) ''User-Agent'' = None
            \<and> headers_get (req_headers request') ''User-Agent'' = None
          \<longrightarrow> rate_limit_key config (getClientIdentifier request)
                = rate_limit_key config (getClientIdentifier request'))"
  using assms
  by (auto simp: getClientIdentifier_def truthy_header_def substring0_def rate_limit_key_def
      split: option.splits)

theorem user_agent_fallback_witness:
  "headers_get (req_headers (long_ua_request ''Chrome/120'')) ''CF-Connecting-IP'' = None
   \<and> headers_get (req_headers (long_ua_request ''Chrome/120'')) ''X-Forwarded-For'' = None
   \<and> headers_get (req_headers (long_ua_request ''Chrome/120'')) ''X-Real-IP'' = None
   \<and> headers_get (req_headers (long_ua_request ''Safari/17'')) ''CF-Connecting-IP'' = None
   \<and> headers_get (req_headers (long_ua_request ''Safari/17'')) ''X-Forwarded-For'' = None
   \<and> headers_get (req_headers (long_ua_request ''Safari/17'')) ''X-Real-IP'' = None
   \<and> getClientIdentifier (long_ua_request ''Chrome/120'')
       = ''ua-Mozilla/5.0 (X11; Linux x86_64) AppleWebKit/537.36''
   \<and> rate_limit_key policy_3_60 (getClientIdentifier (long_ua_request ''Chrome/120''))
       = rate_limit_key policy_3_60 (getClientIdentifier (long_ua_request ''Safari/17''))"
  using user_agent_fallback[of "long_ua_request ''Chrome/120''" "long_ua_request ''Safari/17''"
      "''Mozilla/5.0 (X11; Linux x86_64) AppleWebKit/537.36 Chrome/120''"
      "''Mozilla/5.0 (X11; Linux x86_64) AppleWebKit/537.36 Safari/17''" policy_3_60]
    user_agent_fallback[of "long_ua_request ''Safari/17''" "long_ua_request ''Chrome/120''"
      "''Mozilla/5.0 (X11; Linux x86_64) AppleWebKit/537.36 Safari/17''"
      "''Mozilla/5.0 (X11; Linux x86_64) AppleWebKit/537.36 Chrome/120''" policy_3_60]
  by (simp add: long_ua_request_def headers_get_def toLowerCase_def policy_3_60_def)

text \<open>
  A \<open>User-Agent\<close> header that is present with an empty value is falsy for
  \<open>headers.get('User-Agent') || 'unknown'\<close>: the identifier is \<open>ua-unknown\<close>, not \<open>ua-\<close>
  followed by the (empty) header value.
\<close>

theorem empty_user_agent_counterexample:
  "headers_get (req_headers empty_ua_request) ''CF-Connecting-IP'' = None
   \<and> headers_get (req_headers empty_ua_request) ''X-Forwarded-For'' = None
   \<and> headers_get (req_headers empty_ua_request) ''X-Real-IP'' = None
   \<and> headers_get (req_headers empty_ua_request) ''User-Agent'' = Some ''''
   \<and> getClientIdentifier empty_ua_request = ''ua-unknown''
   \<and> getClientIdentifier empty_ua_request \<noteq> ''ua-'' @ take 50 ''''"
  by (simp add: empty_ua_request_def request_defs)


section \<open>Properties of the error responses\<close>

text \<open>
  C7 (as amended). Every body that \<open>createErrorResponse\<close> builds (and \<open>errorResponse\<close>
  sends) has \<open>success = false\<close> and the type and message of the normalized error, and in
  the production configuration it has neither details nor stack. The body of the
  rate-limit rejection of \<open>withRateLimit\<close> carries \<open>details = {limit, resetAt, retryAfter}\<close>
  in every configuration, and no stack.
\<close>

theorem error_body_in_production:
  assumes en: "isRateLimitEnabled env"
    and noskip: "\<not> (case skipPaths (merge_config (getRateLimitConfig env) custom) of
                     Some ps \<Rightarrow> list_ex (\<lambda>path. startsWith (req_pathname request) path) ps
                   | None \<Rightarrow> False)"
    and chk: "checkRateLimit now (getClientIdentifier request) (merge_config (getRateLimitConfig env) custom) w = (st, w1)"
    and rej: "\<not> allowed st"
  shows "r_success (createErrorResponse env' trace error) = False
       \<and> e_type (r_error (createErrorResponse env' trace error))
           = ae_type (createAppErrorFromNative trace error)
       \<and> e_message (r_error (createErrorResponse env' trace error))
           = ae_message (createAppErrorFromNative trace error)
       \<and> (NODE_ENV env' = Some ''production'' \<longrightarrow>
             e_details (r_error (createErrorResponse env' trace error)) = None
           \<and> e_stack (r_error (createErrorResponse env' trace error)) = None)
       \<and> res_body (errorResponse env' trace error statusCode :: 'b NextResponse)
           = Error_body (createErrorResponse env' trace error)
       \<and> map_option res_body (response_of (withRateLimit env now now2 request handler custom w))
           = Some (Error_body
                \<lparr> r_success = False,
                  r_error = \<lparr> e_type = RATE_LIMIT_ERROR,
                              e_message = ''Too many requests, please try again later'',
                              e_details = Some (JRateLimitDetails (limit st) (resetAt st)
                                                  (ceil_div_1000 (resetAt st - now2))),
                              e_stack = None \<rparr> \<rparr>)"
proof -
  have a: "r_success (createErrorResponse env' trace error) = False
       \<and> e_type (r_error (createErrorResponse env' trace error))
           = ae_type (createAppErrorFromNative trace error)
       \<and> e_message (r_error (createErrorResponse env' trace error))
           = ae_message (createAppErrorFromNative trace error)"
    by (cases error) (simp_all add: createErrorResponse_def Let_def createAppErrorFromNative_def
        split: js_value.splits)
  have b: "NODE_ENV env' = Some ''production'' \<longrightarrow>
             e_details (r_error (createErrorResponse env' trace error)) = None
           \<and> e_stack (r_error (createErrorResponse env' trace error)) = None"
    by (simp add: createErrorResponse_def Let_def)
  have c: "res_body (errorResponse env' trace error statusCode :: 'b NextResponse)
           = Error_body (createErrorResponse env' trace error)"
    by (cases error) (simp_all add: errorResponse_def Let_def NextResponse_json_def
        createErrorResponse_def createAppErrorFromNative_def split: js_value.splits)
  have d: "map_option res_body (response_of (withRateLimit env now now2 request handler custom w))
           = Some (Error_body
                \<lparr> r_success = False,
                  r_error = \<lparr> e_type = RATE_LIMIT_ERROR,
                              e_message = ''Too many requests, please try again later'',
                              e_details = Some (JRateLimitDetails (limit st) (resetAt st)
                                                  (ceil_div_1000 (resetAt st - now2))),
                              e_stack = None \<rparr> \<rparr>)"
    by (simp add: withRateLimit_rejected[OF en noskip chk rej] response_of_def rate_limit_headers
        headers_set_def NextResponse_json_def rate_limit_body_def)
  show ?thesis using a b c d by simp
qed

theorem error_body_in_production_witness:
  "isRateLimitEnabled production_env
   \<and> \<not> (case skipPaths (merge_config (getRateLimitConfig production_env) overrides_3_60) of
                     Some ps \<Rightarrow> list_ex (\<lambda>path. startsWith (req_pathname client_request) path) ps
                   | None \<Rightarrow> False)
   \<and> checkRateLimit (T0 + 3000) (getClientIdentifier client_request)
        (merge_config (getRateLimitConfig production_env) overrides_3_60) (three_calls T0)
      = (\<lparr> allowed = False, remaining = 0, resetAt = T0 + 60000, limit = 3 \<rparr>, three_calls T0)
   \<and> \<not> allowed \<lparr> allowed = False, remaining = 0, resetAt = T0 + 60000, limit = 3 \<rparr>
   \<and> NODE_ENV production_env = Some ''production''
   \<and> createErrorResponse production_env ''at handler'' (Thrown_Error boom)
       = \<lparr> r_success = False,
           r_error = \<lparr> e_type = DATABASE_ERROR, e_message = ''ECONNREFUSED database'',
                       e_details = None, e_stack = None \<rparr> \<rparr>
   \<and> map_option res_body
        (response_of (withRateLimit production_env (T0 + 3000) (T0 + 3000) client_request ok_handler
           overrides_3_60 (three_calls T0)))
       = Some (Error_body
                \<lparr> r_success = False,
                  r_error = \<lparr> e_type = RATE_LIMIT_ERROR,
                              e_message = ''Too many requests, please try again later'',
                              e_details = Some (JRateLimitDetails 3 (T0 + 60000) 57),
                              e_stack = None \<rparr> \<rparr>)"
proof -
  let ?st = "\<lparr> allowed = False, remaining = 0, resetAt = T0 + 60000, limit = 3 \<rparr>"
  have t: "0 < T0" by (simp add: T0_def)
  have en0: "isRateLimitEnabled production_env"
    by (simp add: config_defs)
  have noskip0: "\<not> (case skipPaths (merge_config (getRateLimitConfig production_env) overrides_3_60) of
                   Some ps \<Rightarrow> list_ex (\<lambda>path. startsWith (req_pathname client_request) path) ps
                 | None \<Rightarrow> False)"
    by (simp add: config_defs)
  have rej0: "\<not> allowed ?st" by simp
  have prod: "NODE_ENV production_env = Some ''production''"
    by (simp add: production_env_def)
  have c: "ceil_div_1000 (resetAt ?st - (T0 + 3000)) = 57"
    by (simp add: ceil_div_1000_def)
  have a: "ae_type (createAppErrorFromNative ''at handler'' (Thrown_Error boom)) = DATABASE_ERROR
         \<and> ae_message (createAppErrorFromNative ''at handler'' (Thrown_Error boom)) = ''ECONNREFUSED database''"
    by (simp add: createAppErrorFromNative_def boom_def toLowerCase_def DatabaseError_def AppError_def)
  note th = error_body_in_production[OF en0 noskip0 fourth_call[OF t] rej0,
      where env' = production_env and trace = "''at handler''" and error = "Thrown_Error boom"
        and ?now2.0 = "T0 + 3000" and handler = ok_handler]
  have e: "createErrorResponse production_env ''at handler'' (Thrown_Error boom)
       = \<lparr> r_success = False,
           r_error = \<lparr> e_type = DATABASE_ERROR, e_message = ''ECONNREFUSED database'',
                       e_details = None, e_stack = None \<rparr> \<rparr>"
    using th a prod
    by (cases "createErrorResponse production_env ''at handler'' (Thrown_Error boom)",
        cases "r_error (createErrorResponse production_env ''at handler'' (Thrown_Error boom))") auto
  have b: "map_option res_body
        (response_of (withRateLimit production_env (T0 + 3000) (T0 + 3000) client_request ok_handler
           overrides_3_60 (three_calls T0)))
       = Some (Error_body
                \<lparr> r_success = False,
                  r_error = \<lparr> e_type = RATE_LIMIT_ERROR,
                              e_message = ''Too many requests, please try again later'',
                              e_details = Some (JRateLimitDetails 3 (T0 + 60000) 57),
                              e_stack = None \<rparr> \<rparr>)"
    using th c by auto
  show ?thesis
    using en0 noskip0 fourth_call[OF t] prod e b by simp
qed

text \<open>
  In the production configuration the rejected fourth call of the client answers a body
  whose \<open>error.details\<close> is present.
\<close>

theorem rate_limit_details_counterexample:
  "NODE_ENV production_env = Some ''production''
   \<and> map_option (\<lambda>r. case res_body r of
                        Error_body b \<Rightarrow> e_details (r_error b)
                      | Handler_body x \<Rightarrow> None)
        (response_of (withRateLimit production_env (T0 + 3000) (T0 + 3000) client_request ok_handler
           overrides_3_60 (three_calls T0)))
       = Some (Some (JRateLimitDetails 3 (T0 + 60000) 57))"
proof -
  have t: "0 < T0" by (simp add: T0_def)
  have en0: "isRateLimitEnabled production_env"
    by (simp add: config_defs)
  have noskip0: "\<not> (case skipPaths (merge_config (getRateLimitConfig production_env) overrides_3_60) of
                   Some ps \<Rightarrow> list_ex (\<lambda>path. startsWith (req_pathname client_request) path) ps
                 | None \<Rightarrow> False)"
    by (simp add: config_defs)
  have c: "ceil_div_1000 (T0 + 60000 - (T0 + 3000)) = 57"
    by (simp add: ceil_div_1000_def)
  show ?thesis
    using withRateLimit_rejected[OF en0 noskip0 fourth_call[OF t], of "T0 + 3000" ok_handler] c
    by (simp add: response_of_def rate_limit_headers headers_set_def NextResponse_json_def
        rate_limit_body_def production_env_def)
qed


section \<open>Properties of the middleware pipeline\<close>





end
